theory Spec2Isabelle
  imports Complex_Main "HOL-Library.Sublist"
begin

section \<open>Go values shared by the agent's operations\<close>

text \<open>
  A Go \<open>error\<close> value is observed by this package only through its \<open>Error()\<close> text
  (\<open>strings.Contains(err.Error(), ...)\<close>, \<open>%v\<close> in a format). An error is either made by a
  collaborator outside the package (the etcd client, \<open>net/http\<close>, \<open>os/exec\<close>) or made here by
  \<open>fmt.Errorf\<close>; \<open>None\<close> of \<open>error option\<close> is Go's \<open>nil\<close>.
\<close>

datatype error = External string | Errorf string

fun Error :: "error \<Rightarrow> string" where
  "Error (External msg) = msg"
| "Error (Errorf msg) = msg"

text \<open>\<open>strings.Contains(s, substr)\<close>: \<open>substr\<close> occurs in \<open>s\<close> as a contiguous block.\<close>

fun Contains :: "string \<Rightarrow> string \<Rightarrow> bool" where
  "Contains [] substr = (substr = [])"
| "Contains (c # s) substr = (prefix substr (c # s) \<or> Contains s substr)"

text \<open>\<open>strings.Split(s, sep)\<close> for a one-character separator: \<open>Split("", ":")\<close> is \<open>[""]\<close>.\<close>

fun Split :: "string \<Rightarrow> char \<Rightarrow> string list" where
  "Split [] sep = [[]]"
| "Split (c # s) sep =
     (if c = sep then [] # Split s sep
      else (case Split s sep of [] \<Rightarrow> [[c]] | x # xs \<Rightarrow> (c # x) # xs))"

text \<open>
  \<open>path.Split(p)\<close>: \<open>i := strings.LastIndex(p, "/"); return p[:i+1], p[i+1:]\<close>. The file
  part is the longest suffix without a slash.
\<close>

definition path_Split :: "string \<Rightarrow> string \<times> string" where
  "path_Split p =
     (let file = rev (takeWhile (\<lambda>c. c \<noteq> CHR ''/'') (rev p))
      in (take (length p - length file) p, file))"

text \<open>The decimal text of \<open>%v\<close> on an \<open>int\<close>.\<close>

fun Itoa_nat :: "nat \<Rightarrow> string" where
  "Itoa_nat n =
     (if n < 10 then [''0123456789'' ! n]
      else Itoa_nat (n div 10) @ [''0123456789'' ! (n mod 10)])"

declare Itoa_nat.simps [simp del]

definition Itoa :: "int \<Rightarrow> string" where
  "Itoa i = (if i < 0 then CHR ''-'' # Itoa_nat (nat (- i)) else Itoa_nat (nat i))"

subsection \<open>Constants and the agent's record\<close>

definition KEY_NODE_STATE :: string where
  "KEY_NODE_STATE = ''/couchbase.com/couchbase-node-state''"

definition KEY_USER_PASS :: string where
  "KEY_USER_PASS = ''/couchbase.com/userpass''"

definition TTL_NONE :: int where
  "TTL_NONE = 0"

definition MAX_RETRIES_JOIN_CLUSTER :: nat where
  "MAX_RETRIES_JOIN_CLUSTER = 10"

definition COUCHBASE_DEFAULT_ADMIN_USERNAME :: string where
  "COUCHBASE_DEFAULT_ADMIN_USERNAME = ''admin''"

definition COUCHBASE_DEFAULT_ADMIN_PASSWORD :: string where
  "COUCHBASE_DEFAULT_ADMIN_PASSWORD = ''password''"

text \<open>
  \<open>CouchbaseCluster\<close> without its \<open>etcdClient\<close> pointer: the coordination store is outside
  the process, so each operation below takes the client calls it makes as functions on a
  world \<open>'w\<close> (whatever state the store, the network and the clock have) and returns the
  world it leaves.
\<close>

record CouchbaseCluster =
  LocalCouchbaseIp :: string
  LocalCouchbasePort :: string
  LocalCouchbaseVersion :: string
  AdminUsername :: string
  AdminPassword :: string
  defaultBucketRamQuotaMB :: string
  defaultBucketReplicaNumber :: string
  EtcdServers :: "string list"

subsection \<open>What the etcd client returns\<close>

datatype etcd_Node = MkNode (Key: string) (Val: string) (Nodes: "etcd_Node list")

record etcd_Response =
  Node :: "etcd_Node option"

type_synonym 'w etcd_Get = "string \<Rightarrow> bool \<Rightarrow> bool \<Rightarrow> 'w \<Rightarrow> (error + etcd_Response) \<times> 'w"

type_synonym 'w etcd_CreateDir = "string \<Rightarrow> int \<Rightarrow> 'w \<Rightarrow> error option \<times> 'w"

section \<open>Membership: election and peer discovery\<close>

text \<open>
  \<open>BecomeFirstClusterNode\<close> (cluster.go 120-144): one \<open>CreateDir(KEY_NODE_STATE, TTL_NONE)\<close>;
  an error whose text contains "Key already exists" is the expected lost race.
\<close>

definition BecomeFirstClusterNode :: "'w etcd_CreateDir \<Rightarrow> 'w \<Rightarrow> (bool \<times> error option) \<times> 'w" where
  "BecomeFirstClusterNode etcdClient_CreateDir w =
     (case etcdClient_CreateDir KEY_NODE_STATE TTL_NONE w of
        (Some err, w') \<Rightarrow>
          if Contains (Error err) ''Key already exists'' then ((False, None), w')
          else ((False, Some err), w')
      | (None, w') \<Rightarrow> ((True, None), w'))"

text \<open>
  \<open>FindLiveNode\<close> (cluster.go 183-221). \<open>path.Join(KEY_NODE_STATE)\<close> of the one clean path
  is that path. The \<open>for range\<close> loop returns in its first iteration.
\<close>

definition FindLiveNode :: "'w etcd_Get \<Rightarrow> 'w \<Rightarrow> (string \<times> error option) \<times> 'w" where
  "FindLiveNode etcdClient_Get w =
     (case etcdClient_Get KEY_NODE_STATE False False w of
        (Inl err, w') \<Rightarrow>
          (('''', Some (Errorf (''Error getting key.  Err: '' @ Error err))), w')
      | (Inr response, w') \<Rightarrow>
          (case Node response of
             None \<Rightarrow> (('''', None), w')
           | Some node \<Rightarrow>
               if length (Nodes node) = 0 then (('''', None), w')
               else (case Nodes node of
                       subNode # _ \<Rightarrow> ((snd (path_Split (Key subNode)), None), w')
                     | [] \<Rightarrow> (('''', None), w'))))"

section \<open>The cluster's REST API\<close>

subsection \<open>Decoded JSON and HTTP exchanges\<close>

text \<open>
  What \<open>encoding/json\<close> decodes into an \<open>interface{}\<close>: \<open>nil\<close>, \<open>bool\<close>, \<open>float64\<close>,
  \<open>string\<close>, \<open>[]interface{}\<close> or \<open>map[string]interface{}\<close>. A decoded map is kept as its
  list of bindings and read with \<open>map_of\<close>; a key that is not bound reads as \<open>nil\<close>, on
  which every type assertion fails.
\<close>

datatype json =
    JNull
  | JBool bool
  | JNumber real
  | JString string
  | JArray "json list"
  | JObject "(string \<times> json) list"

text \<open>
  \<open>getJsonData(endpointUrl, &into)\<close> is an authenticated GET whose body is decoded into
  \<open>into\<close>; the operations below take what it answers for a URL: an error (transport or
  decode) or the decoded map, respectively the decoded list.
\<close>

type_synonym getJsonData_map = "string \<Rightarrow> error + (string \<times> json) list"

type_synonym getJsonData_list = "string \<Rightarrow> error + json list"

type_synonym url_Values = "(string \<times> string list) list"

record http_Request =
  Method :: string
  URL :: string
  ContentType :: string
  BasicAuth :: "string \<times> string"
  Form :: url_Values

text \<open>\<open>ReadAll\<close> is the outcome of \<open>ioutil.ReadAll(resp.Body)\<close>.\<close>

record http_Response =
  StatusCode :: int
  ReadAll :: "error + string"

text \<open>
  \<open>net/http\<close> as the package uses it: \<open>http.NewRequest\<close> may refuse a URL, and
  \<open>client.Do\<close> answers a request with a transport error or a response.
\<close>

record net_http =
  NewRequest_err :: "string \<Rightarrow> error option"
  Do :: "http_Request \<Rightarrow> error + http_Response"

text \<open>\<open>strings.Join(elems, sep)\<close>.\<close>

fun Join :: "string list \<Rightarrow> string \<Rightarrow> string" where
  "Join [] sep = ''''"
| "Join [x] sep = x"
| "Join (x # y # ys) sep = x @ sep @ Join (y # ys) sep"

text \<open>\<open>POST\<close> (cluster.go 880-920).\<close>

definition POST :: "CouchbaseCluster \<Rightarrow> net_http \<Rightarrow> bool \<Rightarrow> string \<Rightarrow> url_Values \<Rightarrow> error option" where
  "POST c http defaultAdminCreds endpointUrl data =
     (case NewRequest_err http endpointUrl of
        Some err \<Rightarrow> Some err
      | None \<Rightarrow>
          (let req = \<lparr>Method = ''POST'', URL = endpointUrl,
                      ContentType = ''application/x-www-form-urlencoded'',
                      BasicAuth =
                        (if defaultAdminCreds
                         then (COUCHBASE_DEFAULT_ADMIN_USERNAME, COUCHBASE_DEFAULT_ADMIN_PASSWORD)
                         else (AdminUsername c, AdminPassword c)),
                      Form = data\<rparr>
           in case Do http req of
                Inl err \<Rightarrow> Some err
              | Inr resp \<Rightarrow>
                  (let body = (case ReadAll resp of
                                 Inl err \<Rightarrow> ''Unable to read body: '' @ Error err
                               | Inr bodyBytes \<Rightarrow> bodyBytes)
                   in if StatusCode resp < 200 \<or> StatusCode resp > 299
                      then Some (Errorf (''Failed to POST to '' @ endpointUrl
                                   @ ''.  Status code: '' @ Itoa (StatusCode resp)
                                   @ ''.  Body: '' @ body))
                      else None)))"

subsection \<open>Cluster topology\<close>

text \<open>\<open>GetClusterNodes\<close> (cluster.go 726-747).\<close>

definition GetClusterNodes :: "CouchbaseCluster \<Rightarrow> getJsonData_map \<Rightarrow> string \<Rightarrow> error + json list" where
  "GetClusterNodes c getJsonData liveNodeIp =
     (let liveNodePort = LocalCouchbasePort c;
          endpointUrl = ''http://'' @ liveNodeIp @ '':'' @ liveNodePort @ ''/pools/default''
      in case getJsonData endpointUrl of
           Inl err \<Rightarrow> Inl err
         | Inr jsonMap \<Rightarrow>
             (case map_of jsonMap ''nodes'' of
                Some (JArray nodeMaps) \<Rightarrow> Inr nodeMaps
              | _ \<Rightarrow> Inl (Errorf ''Unexpected data type in nodes field'')))"

text \<open>The \<open>for range nodes\<close> loop of \<open>CheckNumNodesClusterHealthy\<close> (cluster.go 633-653).\<close>

fun CheckNumNodesClusterHealthy_nodes :: "json list \<Rightarrow> bool \<times> error option" where
  "CheckNumNodesClusterHealthy_nodes [] = (True, None)"
| "CheckNumNodesClusterHealthy_nodes (node # nodes) =
     (case node of
        JObject nodeMap \<Rightarrow>
          (case map_of nodeMap ''status'' of
             Some (JString statusStr) \<Rightarrow>
               if statusStr \<noteq> ''healthy'' then (False, None)
               else CheckNumNodesClusterHealthy_nodes nodes
           | _ \<Rightarrow> (False, Some (Errorf ''No status string found'')))
      | _ \<Rightarrow> (False, Some (Errorf ''Node had unexpected data type'')))"

text \<open>\<open>CheckNumNodesClusterHealthy\<close> (cluster.go 620-655); \<open>numNodes\<close> and \<open>len\<close> are ints.\<close>

definition CheckNumNodesClusterHealthy ::
    "CouchbaseCluster \<Rightarrow> getJsonData_map \<Rightarrow> int \<Rightarrow> string \<Rightarrow> bool \<times> error option" where
  "CheckNumNodesClusterHealthy c getJsonData numNodes liveNodeIp =
     (case GetClusterNodes c getJsonData liveNodeIp of
        Inl err \<Rightarrow> (False, Some err)
      | Inr nodes \<Rightarrow>
          if numNodes \<noteq> - 1 \<and> int (length nodes) < numNodes then (False, None)
          else CheckNumNodesClusterHealthy_nodes nodes)"

text \<open>The loop of \<open>OtpNodeList\<close> (cluster.go 703-722), with the list built so far.\<close>

fun OtpNodeList_nodes :: "json list \<Rightarrow> string list \<Rightarrow> string list \<times> error option" where
  "OtpNodeList_nodes [] otpNodeList = (otpNodeList, None)"
| "OtpNodeList_nodes (node # nodes) otpNodeList =
     (case node of
        JObject nodeMap \<Rightarrow>
          (case map_of nodeMap ''otpNode'' of
             Some (JString otpNodeStr) \<Rightarrow> OtpNodeList_nodes nodes (otpNodeList @ [otpNodeStr])
           | _ \<Rightarrow> (otpNodeList, Some (Errorf ''No otpNode string found'')))
      | _ \<Rightarrow> (otpNodeList, Some (Errorf ''Node had unexpected data type'')))"

text \<open>\<open>OtpNodeList\<close> (cluster.go 694-724).\<close>

definition OtpNodeList :: "CouchbaseCluster \<Rightarrow> getJsonData_map \<Rightarrow> string \<Rightarrow> string list \<times> error option" where
  "OtpNodeList c getJsonData liveNodeIp =
     (case GetClusterNodes c getJsonData liveNodeIp of
        Inl err \<Rightarrow> ([], Some err)
      | Inr nodes \<Rightarrow> OtpNodeList_nodes nodes [])"

text \<open>
  \<open>TriggerRebalance\<close> (cluster.go 665-690). On an error of \<open>OtpNodeList\<close> the source has
  \<open>return nil\<close>.
\<close>

definition TriggerRebalance :: "CouchbaseCluster \<Rightarrow> getJsonData_map \<Rightarrow> net_http \<Rightarrow> string \<Rightarrow> error option" where
  "TriggerRebalance c getJsonData http liveNodeIp =
     (case OtpNodeList c getJsonData liveNodeIp of
        (otpNodeList, Some err) \<Rightarrow> None
      | (otpNodeList, None) \<Rightarrow>
          (let liveNodePort = LocalCouchbasePort c;
               endpointUrl = ''http://'' @ liveNodeIp @ '':'' @ liveNodePort @ ''/controller/rebalance'';
               otpNodes = Join otpNodeList '','';
               data = [(''ejectedNodes'', []), (''knownNodes'', [otpNodes])]
           in POST c http False endpointUrl data))"


subsection \<open>Buckets\<close>

text \<open>
  The loop of \<open>HasDefaultBucket\<close> (cluster.go 525-541): an entry that is not a map, or
  whose \<open>name\<close> is not a string, is passed over with \<open>continue\<close>.
\<close>

fun HasDefaultBucket_entries :: "json list \<Rightarrow> bool" where
  "HasDefaultBucket_entries [] = False"
| "HasDefaultBucket_entries (bucketEntry # jsonList) =
     (case bucketEntry of
        JObject bucketEntryMap \<Rightarrow>
          (case map_of bucketEntryMap ''name'' of
             Some (JString name) \<Rightarrow>
               if name = ''default'' then True else HasDefaultBucket_entries jsonList
           | _ \<Rightarrow> HasDefaultBucket_entries jsonList)
      | _ \<Rightarrow> HasDefaultBucket_entries jsonList)"

text \<open>\<open>HasDefaultBucket\<close> (cluster.go 510-543).\<close>

definition HasDefaultBucket :: "CouchbaseCluster \<Rightarrow> getJsonData_list \<Rightarrow> bool \<times> error option" where
  "HasDefaultBucket c getJsonData =
     (let endpointUrl = ''http://'' @ LocalCouchbaseIp c @ '':'' @ LocalCouchbasePort c
                          @ ''/pools/default/buckets''
      in case getJsonData endpointUrl of
           Inl err \<Rightarrow> (False, Some err)
         | Inr jsonList \<Rightarrow> (HasDefaultBucket_entries jsonList, None))"

subsection \<open>The RAM quota\<close>

text \<open>
  Go's \<open>int\<close> on the 64-bit hosts the agent runs on: products wrap around in two's
  complement, and \<open>/\<close> truncates toward zero.
\<close>

definition int_wrap :: "int \<Rightarrow> int" where
  "int_wrap x = (x + 2 ^ 63) mod 2 ^ 64 - 2 ^ 63"

definition int_mul :: "int \<Rightarrow> int \<Rightarrow> int" where
  "int_mul a b = int_wrap (a * b)"

definition int_quo :: "int \<Rightarrow> int \<Rightarrow> int" where
  "int_quo a b = int_wrap (sgn a * sgn b * (\<bar>a\<bar> div \<bar>b\<bar>))"

text \<open>
  \<open>CalculateClusterRam\<close> (cluster.go 432-442), given what \<open>CalculateTotalRam()\<close> returned:
  the total of \<open>free -m\<close> as an \<open>int\<close>, or an error.
\<close>

definition CalculateClusterRam :: "error + int \<Rightarrow> error + string" where
  "CalculateClusterRam CalculateTotalRam =
     (case CalculateTotalRam of
        Inl err \<Rightarrow> Inl err
      | Inr totalRamMb \<Rightarrow>
          (let clusterRam = int_quo (int_mul totalRamMb 75) 100 in Inr (Itoa clusterRam)))"

text \<open>\<open>SetClusterRam\<close> (cluster.go 412-430).\<close>

definition SetClusterRam :: "CouchbaseCluster \<Rightarrow> net_http \<Rightarrow> error + int \<Rightarrow> error option" where
  "SetClusterRam c http CalculateTotalRam =
     (let ramMb = (case CalculateClusterRam CalculateTotalRam of
                     Inl err \<Rightarrow> ''1024''
                   | Inr ramMb \<Rightarrow> ramMb);
          endpointUrl = ''http://'' @ LocalCouchbaseIp c @ '':'' @ LocalCouchbasePort c
                          @ ''/pools/default'';
          data = [(''memoryQuota'', [ramMb])]
      in POST c http False endpointUrl data)"

section \<open>The retry loop\<close>

text \<open>
  \<open>RetryWorker\<close> and \<open>RetrySleeper\<close> (cluster.go 990-993) are closures: each call may
  read and change the world. \<open>time_After\<close> is the blocking receive from \<open>time.After\<close>.
\<close>

type_synonym 'w RetryWorker = "'w \<Rightarrow> (bool \<times> error option) \<times> 'w"

type_synonym 'w RetrySleeper = "int \<Rightarrow> 'w \<Rightarrow> (bool \<times> int) \<times> 'w"

type_synonym 'w time_After = "int \<Rightarrow> 'w \<Rightarrow> 'w"

text \<open>
  The \<open>for\<close> loop of \<open>RetryLoop\<close> (cluster.go 999-1018) from a given \<open>numAttempts\<close>. The
  loop has no bound of its own, so the result is an option: \<open>None\<close> is a run that never
  returns. The worker's error is returned as it is (line 1002); the error of line 1011 is
  made with \<open>fmt.Errorf\<close>, like every other error of the package. \<open>numAttempts\<close> is taken
  as an unbounded integer (a Go \<open>int\<close> would wrap only after \<open>2^63\<close> rounds).
\<close>

partial_function (option) RetryLoop_from ::
    "'w RetryWorker \<Rightarrow> 'w RetrySleeper \<Rightarrow> 'w time_After \<Rightarrow> int \<Rightarrow> 'w
       \<Rightarrow> (error option \<times> 'w) option" where
  "RetryLoop_from worker sleeper time_After numAttempts w =
     (case worker w of
        ((workerFinished, Some err), w1) \<Rightarrow> Some (Some err, w1)
      | ((workerFinished, None), w1) \<Rightarrow>
          if workerFinished then Some (None, w1)
          else (case sleeper numAttempts w1 of
                  ((shouldContinue, sleepSeconds), w2) \<Rightarrow>
                    if \<not> shouldContinue
                    then Some (Some (Errorf
                           (''RetryLoop giving up after '' @ Itoa numAttempts @ '' attempts'')), w2)
                    else RetryLoop_from worker sleeper time_After (numAttempts + 1)
                           (time_After sleepSeconds w2)))"

text \<open>
  \<open>RetryLoop\<close> (cluster.go 995-1019): the loop entered with \<open>numAttempts := 1\<close>.
\<close>

definition RetryLoop ::
    "'w RetryWorker \<Rightarrow> 'w RetrySleeper \<Rightarrow> 'w time_After \<Rightarrow> 'w \<Rightarrow> (error option \<times> 'w) option" where
  "RetryLoop worker sleeper time_After w = RetryLoop_from worker sleeper time_After 1 w"



section \<open>Joining an existing cluster\<close>

text \<open>
  \<open>JoinLiveNode\<close> (cluster.go 545-572) as \<open>JoinExistingCluster\<close> calls it: the peer's
  address in, an error or nil out, with whatever it does to the world.
\<close>

type_synonym 'w JoinLiveNode = "string \<Rightarrow> 'w \<Rightarrow> error option \<times> 'w"

text \<open>
  The \<open>for i := 0; i < MAX_RETRIES_JOIN_CLUSTER; i++\<close> loop of \<open>JoinExistingCluster\<close>
  (cluster.go 154-177) from a given \<open>i\<close> and \<open>sleepSeconds\<close>. The error of \<open>FindLiveNode\<close> is
  only logged.
\<close>

function JoinExistingCluster_from ::
    "'w etcd_Get \<Rightarrow> 'w JoinLiveNode \<Rightarrow> 'w time_After \<Rightarrow> nat \<Rightarrow> int \<Rightarrow> 'w \<Rightarrow> error option \<times> 'w" where
  "JoinExistingCluster_from etcdClient_Get JoinLiveNode time_After i sleepSeconds w =
     (if i < MAX_RETRIES_JOIN_CLUSTER
      then (case FindLiveNode etcdClient_Get w of
              ((liveNodeIp, err), w1) \<Rightarrow>
                if liveNodeIp \<noteq> '''' then JoinLiveNode liveNodeIp w1
                else JoinExistingCluster_from etcdClient_Get JoinLiveNode time_After (i + 1)
                       (sleepSeconds + 10) (time_After (sleepSeconds + 10) w1))
      else (Some (Errorf ''Failed to join cluster after several retries''), w))"
  by pat_completeness auto
termination
  by (relation "measure (\<lambda>(g, j, t, i, s, w). MAX_RETRIES_JOIN_CLUSTER - i)") auto

declare JoinExistingCluster_from.simps [simp del]

text \<open>
  \<open>JoinExistingCluster\<close> (cluster.go 148-179): the loop entered with \<open>sleepSeconds := 0\<close>.
\<close>

definition JoinExistingCluster :: "'w etcd_Get \<Rightarrow> 'w JoinLiveNode \<Rightarrow> 'w time_After \<Rightarrow> 'w \<Rightarrow> error option \<times> 'w" where
  "JoinExistingCluster etcdClient_Get JoinLiveNode time_After w =
     JoinExistingCluster_from etcdClient_Get JoinLiveNode time_After 0 0 w"

text \<open>
  The discovery schedule in the specification's words: after each of the first \<open>k\<close>
  attempts found no peer, the agent has slept 10, 20, ..., \<open>10 * k\<close> seconds, one sleep
  after each attempt; \<open>peer_at k\<close> is the address attempt \<open>k + 1\<close> then finds.
\<close>

primrec no_peer_world :: "'w etcd_Get \<Rightarrow> 'w time_After \<Rightarrow> 'w \<Rightarrow> nat \<Rightarrow> 'w" where
  "no_peer_world etcdClient_Get time_After w 0 = w"
| "no_peer_world etcdClient_Get time_After w (Suc k) =
     time_After (10 * (int k + 1))
       (snd (FindLiveNode etcdClient_Get (no_peer_world etcdClient_Get time_After w k)))"

definition peer_at :: "'w etcd_Get \<Rightarrow> 'w time_After \<Rightarrow> 'w \<Rightarrow> nat \<Rightarrow> string" where
  "peer_at etcdClient_Get time_After w k =
     fst (fst (FindLiveNode etcdClient_Get (no_peer_world etcdClient_Get time_After w k)))"

section \<open>Loading the admin credentials\<close>

text \<open>
  A call either returns or panics (a nil pointer dereference, an index out of range).
\<close>

datatype 'a outcome = Returns 'a | Panics string

text \<open>
  The loop of \<open>LoadAdminCredsFromEtcd\<close> (cluster.go 1094-1117) from a given \<open>i\<close>; the
  receiver is a pointer, so the record is returned as the call leaves it. The source reads
  \<open>response.Node.Value\<close> without a nil check and indexes the components without a length
  check; both are written out.
\<close>

function LoadAdminCredsFromEtcd_from ::
    "'w etcd_Get \<Rightarrow> 'w time_After \<Rightarrow> CouchbaseCluster \<Rightarrow> nat \<Rightarrow> 'w
       \<Rightarrow> (error option \<times> CouchbaseCluster) outcome \<times> 'w" where
  "LoadAdminCredsFromEtcd_from etcdClient_Get time_After c i w =
     (if i < MAX_RETRIES_JOIN_CLUSTER
      then (case etcdClient_Get KEY_USER_PASS False False w of
              (Inl err, w1) \<Rightarrow>
                LoadAdminCredsFromEtcd_from etcdClient_Get time_After c (i + 1) (time_After 10 w1)
            | (Inr response, w1) \<Rightarrow>
                (case Node response of
                   None \<Rightarrow> (Panics ''invalid memory address or nil pointer dereference'', w1)
                 | Some node \<Rightarrow>
                     (let userpassRaw = Val node
                      in if \<not> Contains userpassRaw '':''
                         then (Returns (Some (Errorf (''Invalid user/pass: '' @ userpassRaw)), c), w1)
                         else (let userpassComponents = Split userpassRaw CHR '':''
                               in if length userpassComponents < 2
                                  then (Panics ''index out of range'', w1)
                                  else (Returns (None,
                                          c\<lparr>AdminUsername := userpassComponents ! 0,
                                            AdminPassword := userpassComponents ! 1\<rparr>), w1)))))
      else (Returns (Some (Errorf ''Unable to load admin creds after several retries''), c), w))"
  by pat_completeness auto
termination
  by (relation "measure (\<lambda>(g, t, c, i, w). MAX_RETRIES_JOIN_CLUSTER - i)") auto

declare LoadAdminCredsFromEtcd_from.simps [simp del]

text \<open>
  \<open>LoadAdminCredsFromEtcd\<close> (cluster.go 1088-1121).
\<close>

definition LoadAdminCredsFromEtcd ::
    "'w etcd_Get \<Rightarrow> 'w time_After \<Rightarrow> CouchbaseCluster \<Rightarrow> 'w
       \<Rightarrow> (error option \<times> CouchbaseCluster) outcome \<times> 'w" where
  "LoadAdminCredsFromEtcd etcdClient_Get time_After c w =
     LoadAdminCredsFromEtcd_from etcdClient_Get time_After c 0 w"

text \<open>
  For stating which read succeeds first: the world in which read \<open>k + 1\<close> starts after
  \<open>k\<close> failed reads, each followed by a sleep of 10 seconds, and the failure of read
  \<open>k + 1\<close>.
\<close>

primrec unread_world :: "'w etcd_Get \<Rightarrow> 'w time_After \<Rightarrow> 'w \<Rightarrow> nat \<Rightarrow> 'w" where
  "unread_world etcdClient_Get time_After w 0 = w"
| "unread_world etcdClient_Get time_After w (Suc k) =
     time_After 10
       (snd (etcdClient_Get KEY_USER_PASS False False (unread_world etcdClient_Get time_After w k)))"

definition read_fails :: "'w etcd_Get \<Rightarrow> 'w time_After \<Rightarrow> 'w \<Rightarrow> nat \<Rightarrow> bool" where
  "read_fails etcdClient_Get time_After w k =
     isl (fst (etcdClient_Get KEY_USER_PASS False False (unread_world etcdClient_Get time_After w k)))"

section \<open>A small coordination store, for worked examples\<close>

text \<open>
  The world is the list of directories that exist, each with the names of its children.
  The store reports its conditions as errors of the call, the way etcd does: creating a
  directory that exists fails with error code 105, reading a key that does not exist fails
  with error code 100.
\<close>

type_synonym dirs = "(string \<times> string list) list"

definition dirs_CreateDir :: "dirs etcd_CreateDir" where
  "dirs_CreateDir key ttl w =
     (if key \<in> fst ` set w
      then (Some (External (''105: Key already exists ('' @ key @ '') [7]'')), w)
      else (None, (key, []) # w))"

definition down_CreateDir :: "'w etcd_CreateDir" where
  "down_CreateDir key ttl w = (Some (External ''501: All the given peers are not reachable''), w)"

definition dirs_Get :: "dirs etcd_Get" where
  "dirs_Get key sorting recursive w =
     (case map_of w key of
        None \<Rightarrow> (Inl (External (''100: Key not found ('' @ key @ '') [7]'')), w)
      | Some children \<Rightarrow>
          (Inr \<lparr>Node = Some (MkNode key ''''
                  (map (\<lambda>child. MkNode (key @ ''/'' @ child) ''up'' []) children))\<rparr>, w))"

text \<open>A joining node, and canned answers of the REST API.\<close>

definition node1 :: CouchbaseCluster where
  "node1 = \<lparr>LocalCouchbaseIp = ''10.0.0.8'', LocalCouchbasePort = ''8091'',
            LocalCouchbaseVersion = ''3.0.1'', AdminUsername = ''user'', AdminPassword = ''passw0rd'',
            defaultBucketRamQuotaMB = ''128'', defaultBucketReplicaNumber = ''1'',
            EtcdServers = []\<rparr>"

definition topology :: "json list \<Rightarrow> getJsonData_map" where
  "topology nodes url = Inr [(''name'', JString ''default''), (''nodes'', JArray nodes)]"

definition buckets :: "json list \<Rightarrow> getJsonData_list" where
  "buckets jsonList url = Inr jsonList"

definition unreachable :: "string \<Rightarrow> error + 'a" where
  "unreachable url = Inl (External (''Get '' @ url @ '': connection refused''))"

text \<open>A server that refuses every form with status 400 and echoes it in the body.\<close>

definition echo_http :: net_http where
  "echo_http = \<lparr>NewRequest_err = (\<lambda>url. None),
      Do = (\<lambda>req. Inr \<lparr>StatusCode = 400,
              ReadAll = Inr (concat (map (\<lambda>(k, vs). k @ ''='' @ Join vs '','' @ '';'') (Form req)))\<rparr>)\<rparr>"

definition answering_http :: "int \<Rightarrow> string \<Rightarrow> net_http" where
  "answering_http code body = \<lparr>NewRequest_err = (\<lambda>url. None),
      Do = (\<lambda>req. Inr \<lparr>StatusCode = code, ReadAll = Inr body\<rparr>)\<rparr>"






text \<open>
  A world that logs a join: the number of reads of the membership directory, the sleeps
  taken, and the peers joined. The directory is empty for the first \<open>n\<close> reads and holds
  one peer afterwards.
\<close>

type_synonym join_log = "nat \<times> int list \<times> string list"

definition late_Get :: "nat \<Rightarrow> join_log etcd_Get" where
  "late_Get n key sorting recursive w =
     (case w of (polls, slept, joined) \<Rightarrow>
        (Inr \<lparr>Node = Some (MkNode key ''''
                (if polls < n then [] else [MkNode (key @ ''/10.0.0.7'') ''up'' []]))\<rparr>,
         (Suc polls, slept, joined)))"

definition logging_Join :: "join_log JoinLiveNode" where
  "logging_Join liveNodeIp w =
     (case w of (polls, slept, joined) \<Rightarrow> (None, (polls, slept, joined @ [liveNodeIp])))"

definition join_After :: "join_log time_After" where
  "join_After sleepSeconds w =
     (case w of (polls, slept, joined) \<Rightarrow> (polls, slept @ [sleepSeconds], joined))"

text \<open>
  A world that logs the loading of the credentials: the number of reads and the sleeps
  taken. The first \<open>n\<close> reads fail; later ones answer the stored value.
\<close>

type_synonym read_log = "nat \<times> int list"

definition userpass_Get :: "nat \<Rightarrow> string \<Rightarrow> read_log etcd_Get" where
  "userpass_Get n userpass key sorting recursive w =
     (case w of (reads, slept) \<Rightarrow>
        ((if reads < n then Inl (External ''501: All the given peers are not reachable'')
          else Inr \<lparr>Node = Some (MkNode key userpass [])\<rparr>),
         (Suc reads, slept)))"

definition read_After :: "read_log time_After" where
  "read_After sleepSeconds w = (case w of (reads, slept) \<Rightarrow> (reads, slept @ [sleepSeconds]))"

section \<open>Facts about the string helpers\<close>


lemma path_Split_file:
  "\<exists>dir. p = dir @ snd (path_Split p) \<and> CHR ''/'' \<notin> set (snd (path_Split p))
     \<and> (dir = [] \<or> last dir = CHR ''/'')"
proof -
  let ?P = "\<lambda>c. c \<noteq> CHR ''/''"
  let ?file = "rev (takeWhile ?P (rev p))"
  let ?dir = "rev (dropWhile ?P (rev p))"
  have split: "p = ?dir @ ?file"
    by (metis rev_append rev_rev_ident takeWhile_dropWhile_id)
  have noslash: "CHR ''/'' \<notin> set ?file"
    using set_takeWhileD [of "CHR ''/''" ?P "rev p"] by auto
  have edge: "?dir = [] \<or> last ?dir = CHR ''/''"
  proof (cases "dropWhile ?P (rev p)")
    case Nil
    then show ?thesis by simp
  next
    case (Cons a as)
    then have "\<not> ?P a" using hd_dropWhile [of ?P "rev p"] by auto
    with Cons show ?thesis by simp
  qed
  have "snd (path_Split p) = ?file" by (simp add: path_Split_def Let_def)
  with split noslash edge show ?thesis by metis
qed

section \<open>Election\<close>

text \<open>
  C1. An election attempt answers (true, nil) exactly when the creation of the membership
  directory returned no error; when the creation failed with the store's "Key already
  exists" error it answers (false, nil); on every other failure it answers (false, that
  error). The attempt makes exactly the one creation call.
\<close>

theorem BecomeFirstClusterNode_outcomes:
  fixes etcdClient_CreateDir :: "'w etcd_CreateDir"
  assumes "etcdClient_CreateDir KEY_NODE_STATE TTL_NONE w = (created, w')"
  shows "((fst (BecomeFirstClusterNode etcdClient_CreateDir w) = (True, None)) = (created = None))
    \<and> (\<forall>err. created = Some err \<and> Contains (Error err) ''Key already exists'' \<longrightarrow>
           BecomeFirstClusterNode etcdClient_CreateDir w = ((False, None), w'))
    \<and> (\<forall>err. created = Some err \<and> \<not> Contains (Error err) ''Key already exists'' \<longrightarrow>
           BecomeFirstClusterNode etcdClient_CreateDir w = ((False, Some err), w'))
    \<and> snd (BecomeFirstClusterNode etcdClient_CreateDir w) = w'"
  using assms by (auto simp: BecomeFirstClusterNode_def split: option.splits)

theorem BecomeFirstClusterNode_outcomes_witness:
  "fst (BecomeFirstClusterNode dirs_CreateDir []) = (True, None)
   \<and> BecomeFirstClusterNode dirs_CreateDir [(KEY_NODE_STATE, [])]
       = ((False, None), [(KEY_NODE_STATE, [])])
   \<and> BecomeFirstClusterNode down_CreateDir ([] :: dirs)
       = ((False, Some (External ''501: All the given peers are not reachable'')), [])"
proof -
  have free: "dirs_CreateDir KEY_NODE_STATE TTL_NONE [] = (None, [(KEY_NODE_STATE, [])])"
    by (simp add: dirs_CreateDir_def)
  have taken: "dirs_CreateDir KEY_NODE_STATE TTL_NONE [(KEY_NODE_STATE, [])]
      = (Some (External (''105: Key already exists ('' @ KEY_NODE_STATE @ '') [7]'')),
         [(KEY_NODE_STATE, [])])"
    by (simp add: dirs_CreateDir_def)
  have down: "down_CreateDir KEY_NODE_STATE TTL_NONE ([] :: dirs)
      = (Some (External ''501: All the given peers are not reachable''), [])"
    by (simp add: down_CreateDir_def)
  have text_taken:
    "Contains (Error (External (''105: Key already exists ('' @ KEY_NODE_STATE @ '') [7]'')))
       ''Key already exists''"
    by (simp add: KEY_NODE_STATE_def)
  have text_down:
    "\<not> Contains (Error (External ''501: All the given peers are not reachable''))
       ''Key already exists''"
    by simp
  from BecomeFirstClusterNode_outcomes [where etcdClient_CreateDir = dirs_CreateDir, OF free]
  have a: "fst (BecomeFirstClusterNode dirs_CreateDir []) = (True, None)" by simp
  from BecomeFirstClusterNode_outcomes [where etcdClient_CreateDir = dirs_CreateDir, OF taken] text_taken
  have b: "BecomeFirstClusterNode dirs_CreateDir [(KEY_NODE_STATE, [])]
       = ((False, None), [(KEY_NODE_STATE, [])])"
    by blast
  from BecomeFirstClusterNode_outcomes [where etcdClient_CreateDir = down_CreateDir, OF down] text_down
  have c: "BecomeFirstClusterNode down_CreateDir ([] :: dirs)
       = ((False, Some (External ''501: All the given peers are not reachable'')), [])"
    by blast
  from a b c show ?thesis by blast
qed

section \<open>Peer discovery\<close>

text \<open>
  C3 (as the code has it). When the read of the membership directory fails, as it does
  for a directory that is absent, \<open>FindLiveNode\<close> returns the empty string and an error
  that wraps the error of the read. When the read answers with no node, or with a node
  that has no children, it returns the empty string and no error. When the node has at
  least one child it returns, with no error, the last path element of the first child's
  key: the text after the key's final slash.
\<close>

theorem FindLiveNode_first_child:
  fixes etcdClient_Get :: "'w etcd_Get"
  shows "(\<forall>err w'. etcdClient_Get KEY_NODE_STATE False False w = (Inl err, w') \<longrightarrow>
            FindLiveNode etcdClient_Get w
              = (('''', Some (Errorf (''Error getting key.  Err: '' @ Error err))), w'))
    \<and> (\<forall>response w'. etcdClient_Get KEY_NODE_STATE False False w = (Inr response, w')
            \<and> (Node response = None \<or> (\<exists>node. Node response = Some node \<and> Nodes node = [])) \<longrightarrow>
            FindLiveNode etcdClient_Get w = (('''', None), w'))
    \<and> (\<forall>response w' node subNode rest.
            etcdClient_Get KEY_NODE_STATE False False w = (Inr response, w')
            \<and> Node response = Some node \<and> Nodes node = subNode # rest \<longrightarrow>
          (\<exists>dir ip. FindLiveNode etcdClient_Get w = ((ip, None), w')
             \<and> Key subNode = dir @ ip \<and> CHR ''/'' \<notin> set ip \<and> (dir = [] \<or> last dir = CHR ''/'')))"
proof (intro conjI allI impI)
  fix err w'
  assume "etcdClient_Get KEY_NODE_STATE False False w = (Inl err, w')"
  then show "FindLiveNode etcdClient_Get w
              = (('''', Some (Errorf (''Error getting key.  Err: '' @ Error err))), w')"
    by (simp add: FindLiveNode_def)
next
  fix response w'
  assume "etcdClient_Get KEY_NODE_STATE False False w = (Inr response, w')
            \<and> (Node response = None \<or> (\<exists>node. Node response = Some node \<and> Nodes node = []))"
  then show "FindLiveNode etcdClient_Get w = (('''', None), w')"
    by (auto simp: FindLiveNode_def)
next
  fix response w' node subNode rest
  assume "etcdClient_Get KEY_NODE_STATE False False w = (Inr response, w')
            \<and> Node response = Some node \<and> Nodes node = subNode # rest"
  then have "FindLiveNode etcdClient_Get w = ((snd (path_Split (Key subNode)), None), w')"
    by (simp add: FindLiveNode_def)
  with path_Split_file [of "Key subNode"]
  show "\<exists>dir ip. FindLiveNode etcdClient_Get w = ((ip, None), w')
          \<and> Key subNode = dir @ ip \<and> CHR ''/'' \<notin> set ip \<and> (dir = [] \<or> last dir = CHR ''/'')"
    by blast
qed

theorem FindLiveNode_first_child_witness:
  "FindLiveNode dirs_Get []
     = (('''', Some (Errorf (''Error getting key.  Err: 100: Key not found ('' @ KEY_NODE_STATE
                               @ '') [7]''))), [])
   \<and> FindLiveNode dirs_Get [(KEY_NODE_STATE, [])] = (('''', None), [(KEY_NODE_STATE, [])])
   \<and> (\<exists>dir ip. FindLiveNode dirs_Get [(KEY_NODE_STATE, [''10.0.0.7'', ''10.0.0.9''])]
          = ((ip, None), [(KEY_NODE_STATE, [''10.0.0.7'', ''10.0.0.9''])])
        \<and> KEY_NODE_STATE @ ''/10.0.0.7'' = dir @ ip \<and> CHR ''/'' \<notin> set ip
        \<and> (dir = [] \<or> last dir = CHR ''/''))"
proof -
  have absent: "dirs_Get KEY_NODE_STATE False False []
      = (Inl (External (''100: Key not found ('' @ KEY_NODE_STATE @ '') [7]'')), [])"
    by (simp add: dirs_Get_def)
  have empty: "dirs_Get KEY_NODE_STATE False False [(KEY_NODE_STATE, [])]
      = (Inr \<lparr>Node = Some (MkNode KEY_NODE_STATE '''' [])\<rparr>, [(KEY_NODE_STATE, [])])"
    by (simp add: dirs_Get_def)
  have two: "dirs_Get KEY_NODE_STATE False False [(KEY_NODE_STATE, [''10.0.0.7'', ''10.0.0.9''])]
      = (Inr \<lparr>Node = Some (MkNode KEY_NODE_STATE ''''
                [MkNode (KEY_NODE_STATE @ ''/10.0.0.7'') ''up'' [],
                 MkNode (KEY_NODE_STATE @ ''/10.0.0.9'') ''up'' []])\<rparr>,
         [(KEY_NODE_STATE, [''10.0.0.7'', ''10.0.0.9''])])"
    by (simp add: dirs_Get_def)
  from FindLiveNode_first_child [where etcdClient_Get = dirs_Get and w = "[]"] absent
  have a: "FindLiveNode dirs_Get []
     = (('''', Some (Errorf (''Error getting key.  Err: 100: Key not found ('' @ KEY_NODE_STATE
                               @ '') [7]''))), [])"
    by simp
  from FindLiveNode_first_child [where etcdClient_Get = dirs_Get and w = "[(KEY_NODE_STATE, [])]"]
    empty
  have b: "FindLiveNode dirs_Get [(KEY_NODE_STATE, [])] = (('''', None), [(KEY_NODE_STATE, [])])"
    by simp
  from FindLiveNode_first_child [where etcdClient_Get = dirs_Get
      and w = "[(KEY_NODE_STATE, [''10.0.0.7'', ''10.0.0.9''])]"] two
  have c: "\<exists>dir ip. FindLiveNode dirs_Get [(KEY_NODE_STATE, [''10.0.0.7'', ''10.0.0.9''])]
          = ((ip, None), [(KEY_NODE_STATE, [''10.0.0.7'', ''10.0.0.9''])])
        \<and> KEY_NODE_STATE @ ''/10.0.0.7'' = dir @ ip \<and> CHR ''/'' \<notin> set ip
        \<and> (dir = [] \<or> last dir = CHR ''/'')"
    by simp
  from a b c show ?thesis by blast
qed

text \<open>
  In a store without the membership directory the answer is an error, not the empty
  string with no error.
\<close>

theorem FindLiveNode_absent_counterexample:
  "map_of ([] :: dirs) KEY_NODE_STATE = None
   \<and> FindLiveNode dirs_Get []
       = (('''', Some (Errorf ''Error getting key.  Err: 100: Key not found (/couchbase.com/couchbase-node-state) [7]'')),
          [])
   \<and> FindLiveNode dirs_Get [] \<noteq> (('''', None), [])"
  by (simp add: FindLiveNode_def dirs_Get_def KEY_NODE_STATE_def)

section \<open>Cluster health\<close>

lemma GetClusterNodes_topology: "GetClusterNodes c (topology nodes) ip = Inr nodes"
  by (simp add: GetClusterNodes_def topology_def)

text \<open>
  C5. Whenever the peer lists fewer members than a \<open>numNodes\<close> other than -1 asks for,
  \<open>CheckNumNodesClusterHealthy\<close> returns (false, nil) whatever the listed entries are, so
  without reading any status; in particular with \<open>numNodes = 3\<close> and two listed members.
\<close>

theorem CheckNumNodesClusterHealthy_too_few:
  assumes "GetClusterNodes c getJsonData liveNodeIp = Inr nodes"
  shows "(\<forall>numNodes. numNodes \<noteq> - 1 \<and> int (length nodes) < numNodes \<longrightarrow>
            CheckNumNodesClusterHealthy c getJsonData numNodes liveNodeIp = (False, None))
    \<and> (length nodes = 2 \<longrightarrow> CheckNumNodesClusterHealthy c getJsonData 3 liveNodeIp = (False, None))"
  using assms by (simp add: CheckNumNodesClusterHealthy_def)

theorem CheckNumNodesClusterHealthy_too_few_witness:
  "CheckNumNodesClusterHealthy node1
      (topology [JObject [(''status'', JString ''healthy'')], JString ''garbage'']) 3 ''10.0.0.7''
     = (False, None)
   \<and> CheckNumNodesClusterHealthy node1
      (topology [JObject [(''status'', JString ''healthy'')], JString ''garbage'']) 2 ''10.0.0.7''
     = (False, Some (Errorf ''Node had unexpected data type''))"
proof -
  let ?nodes = "[JObject [(''status'', JString ''healthy'')], JString ''garbage'']"
  have "length ?nodes = 2" by simp
  with CheckNumNodesClusterHealthy_too_few [OF GetClusterNodes_topology, of ?nodes node1 "''10.0.0.7''"]
  have a: "CheckNumNodesClusterHealthy node1 (topology ?nodes) 3 ''10.0.0.7'' = (False, None)"
    by blast
  have b: "CheckNumNodesClusterHealthy node1 (topology ?nodes) 2 ''10.0.0.7''
     = (False, Some (Errorf ''Node had unexpected data type''))"
    by (simp add: CheckNumNodesClusterHealthy_def GetClusterNodes_topology)
  from a b show ?thesis by blast
qed

section \<open>Rebalance\<close>

text \<open>
  C4. What the code does where the claim asks for the error: whenever \<open>OtpNodeList\<close>
  fails (the topology cannot be fetched or decoded, an entry is not a map, or an entry has
  no \<open>otpNode\<close> string), \<open>TriggerRebalance\<close> posts nothing and returns nil, the value it
  also returns after a successful rebalance request.
\<close>

theorem TriggerRebalance_drops_error:
  assumes "snd (OtpNodeList c getJsonData liveNodeIp) = Some err"
  shows "TriggerRebalance c getJsonData http liveNodeIp = None"
  using assms by (cases "OtpNodeList c getJsonData liveNodeIp") (simp add: TriggerRebalance_def)

theorem TriggerRebalance_drops_error_witness:
  "OtpNodeList node1 unreachable ''10.0.0.7''
     = ([], Some (External ''Get http://10.0.0.7:8091/pools/default: connection refused''))
   \<and> TriggerRebalance node1 unreachable echo_http ''10.0.0.7'' = None
   \<and> OtpNodeList node1 (topology [JObject [(''otpNode'', JString ''ns_1@10.0.0.7'')], JNull]) ''10.0.0.7''
     = ([''ns_1@10.0.0.7''], Some (Errorf ''Node had unexpected data type''))
   \<and> TriggerRebalance node1 (topology [JObject [(''otpNode'', JString ''ns_1@10.0.0.7'')], JNull])
        echo_http ''10.0.0.7'' = None
   \<and> OtpNodeList node1 (topology [JObject [(''hostname'', JString ''10.0.0.7:8091'')]]) ''10.0.0.7''
     = ([], Some (Errorf ''No otpNode string found''))
   \<and> TriggerRebalance node1 (topology [JObject [(''hostname'', JString ''10.0.0.7:8091'')]])
        echo_http ''10.0.0.7'' = None"
proof -
  have a: "OtpNodeList node1 unreachable ''10.0.0.7''
     = ([], Some (External ''Get http://10.0.0.7:8091/pools/default: connection refused''))"
    by (simp add: OtpNodeList_def GetClusterNodes_def unreachable_def node1_def)
  have b: "OtpNodeList node1 (topology [JObject [(''otpNode'', JString ''ns_1@10.0.0.7'')], JNull]) ''10.0.0.7''
     = ([''ns_1@10.0.0.7''], Some (Errorf ''Node had unexpected data type''))"
    by (simp add: OtpNodeList_def GetClusterNodes_topology)
  have c: "OtpNodeList node1 (topology [JObject [(''hostname'', JString ''10.0.0.7:8091'')]]) ''10.0.0.7''
     = ([], Some (Errorf ''No otpNode string found''))"
    by (simp add: OtpNodeList_def GetClusterNodes_topology)
  from a have a': "TriggerRebalance node1 unreachable echo_http ''10.0.0.7'' = None"
    by (intro TriggerRebalance_drops_error) simp
  from b have b': "TriggerRebalance node1 (topology [JObject [(''otpNode'', JString ''ns_1@10.0.0.7'')], JNull])
        echo_http ''10.0.0.7'' = None"
    by (intro TriggerRebalance_drops_error) simp
  from c have c': "TriggerRebalance node1 (topology [JObject [(''hostname'', JString ''10.0.0.7:8091'')]])
        echo_http ''10.0.0.7'' = None"
    by (intro TriggerRebalance_drops_error) simp
  from a a' b b' c c' show ?thesis by blast
qed

section \<open>Adding a node\<close>





section \<open>Cluster RAM quota\<close>

lemma int_wrap_id: "- (2 ^ 63) \<le> x \<Longrightarrow> x < 2 ^ 63 \<Longrightarrow> int_wrap x = x"
  by (simp add: int_wrap_def)

lemma quota_in_range:
  assumes "0 \<le> N" and "N * 75 < 2 ^ 63"
  shows "int_quo (int_mul N 75) 100 = N * 75 div 100"
proof -
  from assms have m: "int_mul N 75 = N * 75"
    by (simp add: int_mul_def int_wrap_id)
  from assms have nonneg: "0 \<le> N * 75" by simp
  then have q: "sgn (N * 75) * sgn (100 :: int) * (\<bar>N * 75\<bar> div \<bar>100\<bar>) = N * 75 div 100"
    by (cases "N * 75 = 0") (simp_all add: sgn_if)
  have lo: "0 \<le> N * 75 div 100" using nonneg by simp
  have "N * 75 div 100 \<le> N * 75" using nonneg
    by (metis div_by_1 zdiv_mono2 zero_less_one one_le_numeral)
  with assms have hi: "N * 75 div 100 < 2 ^ 63" by linarith
  from lo hi have "int_wrap (N * 75 div 100) = N * 75 div 100"
    by (intro int_wrap_id) simp_all
  with m q show ?thesis by (simp add: int_quo_def)
qed

text \<open>
  C7. For a total of \<open>N\<close> MB the quota is \<open>(N * 75) / 100\<close> in Go's \<open>int\<close> arithmetic,
  which is the integer quotient \<open>N * 75 div 100\<close> as long as \<open>N * 75\<close> fits 63 bits, so
  4000 MB give 3000 MB; when the total cannot be read \<open>SetClusterRam\<close> posts a quota of
  1024 and returns what the POST returns, not the read error.
\<close>

theorem SetClusterRam_quota:
  fixes c :: CouchbaseCluster and http :: net_http
  defines "endpointUrl \<equiv> ''http://'' @ LocalCouchbaseIp c @ '':'' @ LocalCouchbasePort c @ ''/pools/default''"
  shows "(\<forall>N. CalculateClusterRam (Inr N) = Inr (Itoa (int_quo (int_mul N 75) 100)))
    \<and> (\<forall>N. 0 \<le> N \<and> N * 75 < 2 ^ 63 \<longrightarrow> CalculateClusterRam (Inr N) = Inr (Itoa (N * 75 div 100)))
    \<and> CalculateClusterRam (Inr 4000) = Inr ''3000''
    \<and> (\<forall>N. 0 \<le> N \<and> N * 75 < 2 ^ 63 \<longrightarrow>
          SetClusterRam c http (Inr N)
            = POST c http False endpointUrl [(''memoryQuota'', [Itoa (N * 75 div 100)])])
    \<and> (\<forall>err. SetClusterRam c http (Inl err)
            = POST c http False endpointUrl [(''memoryQuota'', [''1024''])])"
proof (intro conjI allI impI)
  fix N
  show "CalculateClusterRam (Inr N) = Inr (Itoa (int_quo (int_mul N 75) 100))"
    by (simp add: CalculateClusterRam_def)
next
  fix N :: int
  assume "0 \<le> N \<and> N * 75 < 2 ^ 63"
  then show "CalculateClusterRam (Inr N) = Inr (Itoa (N * 75 div 100))"
    by (simp add: CalculateClusterRam_def quota_in_range)
next
  have "int_quo (int_mul 4000 75) 100 = 4000 * 75 div 100"
    by (rule quota_in_range) simp_all
  then have "int_quo (int_mul 4000 75) 100 = 3000" by simp
  moreover have "Itoa 3000 = ''3000''"
    by (simp add: Itoa_def Itoa_nat.simps)
  ultimately show "CalculateClusterRam (Inr 4000) = Inr ''3000''"
    by (simp add: CalculateClusterRam_def)
next
  fix N :: int
  assume "0 \<le> N \<and> N * 75 < 2 ^ 63"
  then show "SetClusterRam c http (Inr N)
            = POST c http False endpointUrl [(''memoryQuota'', [Itoa (N * 75 div 100)])]"
    by (simp add: SetClusterRam_def CalculateClusterRam_def quota_in_range endpointUrl_def)
next
  fix err
  show "SetClusterRam c http (Inl err)
            = POST c http False endpointUrl [(''memoryQuota'', [''1024''])]"
    by (simp add: SetClusterRam_def CalculateClusterRam_def endpointUrl_def)
qed

theorem SetClusterRam_quota_witness:
  "SetClusterRam node1 echo_http (Inr 4000)
     = Some (Errorf ''Failed to POST to http://10.0.0.8:8091/pools/default.  Status code: 400.  Body: memoryQuota=3000;'')
   \<and> SetClusterRam node1 echo_http (Inr 3768)
     = Some (Errorf ''Failed to POST to http://10.0.0.8:8091/pools/default.  Status code: 400.  Body: memoryQuota=2826;'')
   \<and> SetClusterRam node1 echo_http (Inl (External ''exec: free: executable file not found''))
     = Some (Errorf ''Failed to POST to http://10.0.0.8:8091/pools/default.  Status code: 400.  Body: memoryQuota=1024;'')
   \<and> SetClusterRam node1 (answering_http 200 '''') (Inl (External ''exec: free: executable file not found''))
     = None"
proof -
  have range: "(0 :: int) \<le> 4000 \<and> (4000 :: int) * 75 < 2 ^ 63"
    "(0 :: int) \<le> 3768 \<and> (3768 :: int) * 75 < 2 ^ 63"
    by simp_all
  have digits: "Itoa (4000 * 75 div 100) = ''3000''" "Itoa (3768 * 75 div 100) = ''2826''"
    "Itoa 400 = ''400''"
    by (simp_all add: Itoa_def Itoa_nat.simps)
  have a: "SetClusterRam node1 echo_http (Inr 4000)
     = Some (Errorf ''Failed to POST to http://10.0.0.8:8091/pools/default.  Status code: 400.  Body: memoryQuota=3000;'')"
    using SetClusterRam_quota [where c = node1 and http = echo_http] range(1) digits
    by (simp add: POST_def echo_http_def node1_def)
  have b: "SetClusterRam node1 echo_http (Inr 3768)
     = Some (Errorf ''Failed to POST to http://10.0.0.8:8091/pools/default.  Status code: 400.  Body: memoryQuota=2826;'')"
    using SetClusterRam_quota [where c = node1 and http = echo_http] range(2) digits
    by (simp add: POST_def echo_http_def node1_def)
  have c: "SetClusterRam node1 echo_http (Inl (External ''exec: free: executable file not found''))
     = Some (Errorf ''Failed to POST to http://10.0.0.8:8091/pools/default.  Status code: 400.  Body: memoryQuota=1024;'')"
    using SetClusterRam_quota [where c = node1 and http = echo_http] digits
    by (simp add: POST_def echo_http_def node1_def)
  have d: "SetClusterRam node1 (answering_http 200 '''') (Inl (External ''exec: free: executable file not found''))
     = None"
    using SetClusterRam_quota [where c = node1 and http = "answering_http 200 ''''"]
    by (simp add: POST_def answering_http_def node1_def)
  from a b c d show ?thesis by blast
qed

section \<open>The default bucket\<close>

lemma HasDefaultBucket_entries_iff:
  "HasDefaultBucket_entries jsonList \<longleftrightarrow>
     (\<exists>bucketEntry \<in> set jsonList. \<exists>bucketEntryMap. bucketEntry = JObject bucketEntryMap
        \<and> map_of bucketEntryMap ''name'' = Some (JString ''default''))"
  by (induction jsonList) (auto split: json.splits option.splits)

text \<open>
  C10. For a fetched bucket list \<open>HasDefaultBucket\<close> returns true, with no error, exactly
  when some entry is a map whose \<open>name\<close> is the string "default"; entries of another shape
  are passed over; an error comes back only when the fetch or the decoding fails, and it
  is that error.
\<close>

theorem HasDefaultBucket_iff:
  "(\<forall>jsonList. getJsonData (''http://'' @ LocalCouchbaseIp c @ '':'' @ LocalCouchbasePort c
                     @ ''/pools/default/buckets'') = Inr jsonList \<longrightarrow>
      HasDefaultBucket c getJsonData =
        ((\<exists>bucketEntry \<in> set jsonList. \<exists>bucketEntryMap. bucketEntry = JObject bucketEntryMap
            \<and> map_of bucketEntryMap ''name'' = Some (JString ''default'')), None))
   \<and> (\<forall>err. getJsonData (''http://'' @ LocalCouchbaseIp c @ '':'' @ LocalCouchbasePort c
                     @ ''/pools/default/buckets'') = Inl err \<longrightarrow>
      HasDefaultBucket c getJsonData = (False, Some err))"
  by (simp add: HasDefaultBucket_def HasDefaultBucket_entries_iff)

theorem HasDefaultBucket_iff_witness:
  "HasDefaultBucket node1
      (buckets [JString ''default'', JObject [(''name'', JNumber 7)],
                JObject [(''name'', JString ''default'')]]) = (True, None)
   \<and> HasDefaultBucket node1 (buckets [JString ''default'', JObject [(''name'', JNumber 7)]])
       = (False, None)
   \<and> HasDefaultBucket node1 unreachable
       = (False, Some (External ''Get http://10.0.0.8:8091/pools/default/buckets: connection refused''))"
proof -
  have a: "HasDefaultBucket node1
      (buckets [JString ''default'', JObject [(''name'', JNumber 7)],
                JObject [(''name'', JString ''default'')]]) = (True, None)"
    using HasDefaultBucket_iff [of "buckets [JString ''default'', JObject [(''name'', JNumber 7)],
                JObject [(''name'', JString ''default'')]]" node1]
    by (simp add: buckets_def)
  have b: "HasDefaultBucket node1 (buckets [JString ''default'', JObject [(''name'', JNumber 7)]])
       = (False, None)"
    using HasDefaultBucket_iff [of "buckets [JString ''default'', JObject [(''name'', JNumber 7)]]" node1]
    by (simp add: buckets_def)
  have c: "HasDefaultBucket node1 unreachable
       = (False, Some (External ''Get http://10.0.0.8:8091/pools/default/buckets: connection refused''))"
    using HasDefaultBucket_iff [of unreachable node1]
    by (simp add: unreachable_def node1_def)
  from a b c show ?thesis by blast
qed

section \<open>Retrying\<close>






section \<open>Discovery of a peer to join\<close>

lemma JoinExistingCluster_from_step:
  assumes "k < MAX_RETRIES_JOIN_CLUSTER" and "peer_at etcdClient_Get time_After w k = ''''"
  shows "JoinExistingCluster_from etcdClient_Get JoinLiveNode time_After k (10 * int k)
           (no_peer_world etcdClient_Get time_After w k)
       = JoinExistingCluster_from etcdClient_Get JoinLiveNode time_After (Suc k) (10 * int (Suc k))
           (no_peer_world etcdClient_Get time_After w (Suc k))"
proof -
  let ?w0 = "no_peer_world etcdClient_Get time_After w k"
  obtain err w1 where found: "FindLiveNode etcdClient_Get ?w0 = (('''', err), w1)"
    using assms(2) by (cases "FindLiveNode etcdClient_Get ?w0") (auto simp: peer_at_def)
  show ?thesis
    using assms(1) found
    by (subst JoinExistingCluster_from.simps) (simp add: algebra_simps)
qed

lemma JoinExistingCluster_rounds:
  assumes "k \<le> MAX_RETRIES_JOIN_CLUSTER" and "\<forall>j<k. peer_at etcdClient_Get time_After w j = ''''"
  shows "JoinExistingCluster etcdClient_Get JoinLiveNode time_After w
       = JoinExistingCluster_from etcdClient_Get JoinLiveNode time_After k (10 * int k)
           (no_peer_world etcdClient_Get time_After w k)"
  using assms
proof (induction k)
  case 0
  show ?case by (simp add: JoinExistingCluster_def)
next
  case (Suc k)
  then have "JoinExistingCluster etcdClient_Get JoinLiveNode time_After w
       = JoinExistingCluster_from etcdClient_Get JoinLiveNode time_After k (10 * int k)
           (no_peer_world etcdClient_Get time_After w k)"
    by simp
  also have "\<dots> = JoinExistingCluster_from etcdClient_Get JoinLiveNode time_After (Suc k)
           (10 * int (Suc k)) (no_peer_world etcdClient_Get time_After w (Suc k))"
    using Suc.prems by (intro JoinExistingCluster_from_step) simp_all
  finally show ?case .
qed

lemma FindLiveNode_late_Get:
  "FindLiveNode (late_Get n) (polls, slept, joined)
     = ((if polls < n then '''' else ''10.0.0.7'', None), (Suc polls, slept, joined))"
  by (simp add: FindLiveNode_def late_Get_def path_Split_def KEY_NODE_STATE_def)

lemma no_peer_world_late_Get:
  "k \<le> n \<Longrightarrow> no_peer_world (late_Get n) join_After (0, [], []) k
     = (k, map (\<lambda>i. 10 * (int i + 1)) [0..<k], [])"
  by (induction k) (simp_all add: FindLiveNode_late_Get join_After_def)

lemma peer_at_late_Get:
  "k \<le> n \<Longrightarrow> peer_at (late_Get n) join_After (0, [], []) k
     = (if k < n then '''' else ''10.0.0.7'')"
  by (simp add: peer_at_def no_peer_world_late_Get FindLiveNode_late_Get)

text \<open>
  C8. \<open>JoinExistingCluster\<close> looks for a peer at most 10 times, sleeping 10 seconds more
  after each attempt that found none. If attempt \<open>k + 1\<close> (\<open>k < 10\<close>) is the first to find a
  non-empty address, the result is the result of \<open>JoinLiveNode\<close> for that address, run in
  the world that attempt left; if none of the 10 attempts finds one, the result is the
  error "Failed to join cluster after several retries".
\<close>

theorem JoinExistingCluster_attempts:
  fixes etcdClient_Get :: "'w etcd_Get"
  shows "(\<forall>k. k < 10 \<and> (\<forall>j<k. peer_at etcdClient_Get time_After w j = '''')
             \<and> peer_at etcdClient_Get time_After w k \<noteq> '''' \<longrightarrow>
           JoinExistingCluster etcdClient_Get JoinLiveNode time_After w
             = JoinLiveNode (peer_at etcdClient_Get time_After w k)
                 (snd (FindLiveNode etcdClient_Get (no_peer_world etcdClient_Get time_After w k))))
    \<and> ((\<forall>j<10. peer_at etcdClient_Get time_After w j = '''') \<longrightarrow>
           JoinExistingCluster etcdClient_Get JoinLiveNode time_After w
             = (Some (Errorf ''Failed to join cluster after several retries''),
                no_peer_world etcdClient_Get time_After w 10))"
proof (intro conjI allI impI)
  fix k
  assume h: "k < 10 \<and> (\<forall>j<k. peer_at etcdClient_Get time_After w j = '''')
             \<and> peer_at etcdClient_Get time_After w k \<noteq> ''''"
  let ?w0 = "no_peer_world etcdClient_Get time_After w k"
  from h have bound: "k < MAX_RETRIES_JOIN_CLUSTER" by (simp add: MAX_RETRIES_JOIN_CLUSTER_def)
  obtain ip err w1 where found: "FindLiveNode etcdClient_Get ?w0 = ((ip, err), w1)"
    by (cases "FindLiveNode etcdClient_Get ?w0") auto
  with h have ip: "ip \<noteq> ''''" "peer_at etcdClient_Get time_After w k = ip"
    by (simp_all add: peer_at_def)
  have "JoinExistingCluster etcdClient_Get JoinLiveNode time_After w
       = JoinExistingCluster_from etcdClient_Get JoinLiveNode time_After k (10 * int k) ?w0"
    using bound h by (intro JoinExistingCluster_rounds) simp_all
  also have "\<dots> = JoinLiveNode ip w1"
    using bound found ip(1) by (subst JoinExistingCluster_from.simps) simp
  finally show "JoinExistingCluster etcdClient_Get JoinLiveNode time_After w
             = JoinLiveNode (peer_at etcdClient_Get time_After w k) (snd (FindLiveNode etcdClient_Get ?w0))"
    using found ip(2) by simp
next
  assume h: "\<forall>j<10. peer_at etcdClient_Get time_After w j = ''''"
  have "JoinExistingCluster etcdClient_Get JoinLiveNode time_After w
       = JoinExistingCluster_from etcdClient_Get JoinLiveNode time_After 10 (10 * int 10)
           (no_peer_world etcdClient_Get time_After w 10)"
    using h by (intro JoinExistingCluster_rounds) (simp_all add: MAX_RETRIES_JOIN_CLUSTER_def)
  also have "\<dots> = (Some (Errorf ''Failed to join cluster after several retries''),
                no_peer_world etcdClient_Get time_After w 10)"
    by (subst JoinExistingCluster_from.simps) (simp add: MAX_RETRIES_JOIN_CLUSTER_def)
  finally show "JoinExistingCluster etcdClient_Get JoinLiveNode time_After w
             = (Some (Errorf ''Failed to join cluster after several retries''),
                no_peer_world etcdClient_Get time_After w 10)" .
qed

theorem JoinExistingCluster_attempts_witness:
  "JoinExistingCluster (late_Get 2) logging_Join join_After (0, [], [])
     = (None, (3, [10, 20], [''10.0.0.7'']))
   \<and> JoinExistingCluster (late_Get 10) logging_Join join_After (0, [], [])
     = (Some (Errorf ''Failed to join cluster after several retries''),
        (10, [10, 20, 30, 40, 50, 60, 70, 80, 90, 100], []))"
proof -
  let ?w = "(0, [], []) :: join_log"
  have a: "JoinExistingCluster (late_Get 2) logging_Join join_After ?w
     = (None, (3, [10, 20], [''10.0.0.7'']))"
  proof -
    have first: "(2 :: nat) < 10 \<and> (\<forall>j<2. peer_at (late_Get 2) join_After ?w j = '''')
        \<and> peer_at (late_Get 2) join_After ?w 2 \<noteq> ''''"
      by (simp add: peer_at_late_Get)
    have world: "no_peer_world (late_Get 2) join_After ?w 2 = (2, [10, 20], [])"
    proof -
      have "map (\<lambda>i. 10 * (int i + 1)) [0..<2] = [10, 20]" by code_simp
      with no_peer_world_late_Get [of 2 2] show ?thesis by simp
    qed
    have peer: "peer_at (late_Get 2) join_After ?w 2 = ''10.0.0.7''"
      by (simp add: peer_at_late_Get)
    from JoinExistingCluster_attempts [where etcdClient_Get = "late_Get 2"
        and time_After = join_After and w = ?w and JoinLiveNode = logging_Join] first
    have "JoinExistingCluster (late_Get 2) logging_Join join_After ?w
        = logging_Join (peer_at (late_Get 2) join_After ?w 2)
            (snd (FindLiveNode (late_Get 2) (no_peer_world (late_Get 2) join_After ?w 2)))"
      by blast
    then show ?thesis
      unfolding world peer by (simp add: FindLiveNode_late_Get logging_Join_def)
  qed
  have b: "JoinExistingCluster (late_Get 10) logging_Join join_After ?w
     = (Some (Errorf ''Failed to join cluster after several retries''),
        (10, [10, 20, 30, 40, 50, 60, 70, 80, 90, 100], []))"
  proof -
    have none: "\<forall>j<10. peer_at (late_Get 10) join_After ?w j = ''''"
      by (simp add: peer_at_late_Get)
    have world: "no_peer_world (late_Get 10) join_After ?w 10
        = (10, [10, 20, 30, 40, 50, 60, 70, 80, 90, 100], [])"
    proof -
      have "map (\<lambda>i. 10 * (int i + 1)) [0..<10] = [10, 20, 30, 40, 50, 60, 70, 80, 90, 100]"
        by code_simp
      with no_peer_world_late_Get [of 10 10] show ?thesis by simp
    qed
    from JoinExistingCluster_attempts [where etcdClient_Get = "late_Get 10"
        and time_After = join_After and w = ?w and JoinLiveNode = logging_Join] none
    have "JoinExistingCluster (late_Get 10) logging_Join join_After ?w
        = (Some (Errorf ''Failed to join cluster after several retries''),
           no_peer_world (late_Get 10) join_After ?w 10)"
      by blast
    then show ?thesis unfolding world .
  qed
  from a b show ?thesis by blast
qed

section \<open>Admin credentials\<close>

lemma Split_not_Nil: "Split s sep \<noteq> []"
  by (induction s) (auto split: list.splits)

lemma hd_Split: "hd (Split s sep) = takeWhile (\<lambda>x. x \<noteq> sep) s"
proof (induction s)
  case Nil
  show ?case by simp
next
  case (Cons c s)
  with Split_not_Nil [of s sep] show ?case
    by (cases "Split s sep") auto
qed

lemma Split_at_sep: "sep \<in> set s \<Longrightarrow>
    Split s sep = takeWhile (\<lambda>x. x \<noteq> sep) s # Split (tl (dropWhile (\<lambda>x. x \<noteq> sep) s)) sep"
proof (induction s)
  case Nil
  then show ?case by simp
next
  case (Cons c s)
  show ?case
  proof (cases "c = sep")
    case True
    then show ?thesis by simp
  next
    case False
    with Cons.prems have "sep \<in> set s" by simp
    with Cons.IH False show ?thesis by simp
  qed
qed

lemma Split_components:
  assumes "sep \<in> set s"
  shows "2 \<le> length (Split s sep)"
    and "Split s sep ! 0 = takeWhile (\<lambda>x. x \<noteq> sep) s"
    and "Split s sep ! 1 = takeWhile (\<lambda>x. x \<noteq> sep) (tl (dropWhile (\<lambda>x. x \<noteq> sep) s))"
proof -
  let ?rest = "tl (dropWhile (\<lambda>x. x \<noteq> sep) s)"
  note split = Split_at_sep [OF assms]
  obtain x xs where rest: "Split ?rest sep = x # xs"
    using Split_not_Nil [of ?rest sep] by (cases "Split ?rest sep") auto
  from split rest show "2 \<le> length (Split s sep)" by simp
  from split show "Split s sep ! 0 = takeWhile (\<lambda>x. x \<noteq> sep) s" by simp
  from hd_Split [of ?rest sep] rest have "x = takeWhile (\<lambda>x. x \<noteq> sep) ?rest" by simp
  with split rest show "Split s sep ! 1 = takeWhile (\<lambda>x. x \<noteq> sep) ?rest" by simp
qed

lemma takeWhile_until: "sep \<notin> set u \<Longrightarrow> takeWhile (\<lambda>x. x \<noteq> sep) (u @ sep # r) = u"
  by (induction u) auto

lemma dropWhile_until: "sep \<notin> set u \<Longrightarrow> dropWhile (\<lambda>x. x \<noteq> sep) (u @ sep # r) = sep # r"
  by (induction u) auto

lemma Contains_char: "Contains s [c] \<longleftrightarrow> c \<in> set s"
  by (induction s) auto

lemma LoadAdminCredsFromEtcd_from_step:
  assumes "k < MAX_RETRIES_JOIN_CLUSTER" and "read_fails etcdClient_Get time_After w k"
  shows "LoadAdminCredsFromEtcd_from etcdClient_Get time_After c k
           (unread_world etcdClient_Get time_After w k)
       = LoadAdminCredsFromEtcd_from etcdClient_Get time_After c (Suc k)
           (unread_world etcdClient_Get time_After w (Suc k))"
proof -
  let ?w0 = "unread_world etcdClient_Get time_After w k"
  obtain err w1 where failed: "etcdClient_Get KEY_USER_PASS False False ?w0 = (Inl err, w1)"
    using assms(2)
    by (cases "etcdClient_Get KEY_USER_PASS False False ?w0") (auto simp: read_fails_def isl_def)
  show ?thesis
    using assms(1) failed by (subst LoadAdminCredsFromEtcd_from.simps) simp
qed

lemma LoadAdminCredsFromEtcd_rounds:
  assumes "k \<le> MAX_RETRIES_JOIN_CLUSTER" and "\<forall>j<k. read_fails etcdClient_Get time_After w j"
  shows "LoadAdminCredsFromEtcd etcdClient_Get time_After c w
       = LoadAdminCredsFromEtcd_from etcdClient_Get time_After c k
           (unread_world etcdClient_Get time_After w k)"
  using assms
proof (induction k)
  case 0
  show ?case by (simp add: LoadAdminCredsFromEtcd_def)
next
  case (Suc k)
  then have "LoadAdminCredsFromEtcd etcdClient_Get time_After c w
       = LoadAdminCredsFromEtcd_from etcdClient_Get time_After c k
           (unread_world etcdClient_Get time_After w k)"
    by simp
  also have "\<dots> = LoadAdminCredsFromEtcd_from etcdClient_Get time_After c (Suc k)
           (unread_world etcdClient_Get time_After w (Suc k))"
    using Suc.prems by (intro LoadAdminCredsFromEtcd_from_step) simp_all
  finally show ?case .
qed

lemma LoadAdminCredsFromEtcd_read:
  assumes "k < 10" and "\<forall>j<k. read_fails etcdClient_Get time_After w j"
    and "etcdClient_Get KEY_USER_PASS False False (unread_world etcdClient_Get time_After w k)
           = (Inr response, w1)"
    and "Node response = Some node"
  shows "LoadAdminCredsFromEtcd etcdClient_Get time_After c w =
     (if CHR '':'' \<notin> set (Val node)
      then (Returns (Some (Errorf (''Invalid user/pass: '' @ Val node)), c), w1)
      else (Returns (None,
              c\<lparr>AdminUsername := takeWhile (\<lambda>x. x \<noteq> CHR '':'') (Val node),
                AdminPassword := takeWhile (\<lambda>x. x \<noteq> CHR '':'')
                                   (tl (dropWhile (\<lambda>x. x \<noteq> CHR '':'') (Val node)))\<rparr>), w1))"
proof -
  from assms(1) have bound: "k < MAX_RETRIES_JOIN_CLUSTER"
    by (simp add: MAX_RETRIES_JOIN_CLUSTER_def)
  have start: "LoadAdminCredsFromEtcd etcdClient_Get time_After c w
       = LoadAdminCredsFromEtcd_from etcdClient_Get time_After c k
           (unread_world etcdClient_Get time_After w k)"
    using bound assms(2) by (intro LoadAdminCredsFromEtcd_rounds) simp_all
  show ?thesis
  proof (cases "CHR '':'' \<in> set (Val node)")
    case False
    then show ?thesis
      unfolding start using bound assms(3,4)
      by (subst LoadAdminCredsFromEtcd_from.simps) (simp add: Contains_char)
  next
    case True
    note parts = Split_components [OF True]
    from parts(1) have "\<not> length (Split (Val node) CHR '':'') < 2" by simp
    with True parts(2,3) show ?thesis
      unfolding start using bound assms(3,4)
      by (subst LoadAdminCredsFromEtcd_from.simps) (simp add: Contains_char Let_def)
  qed
qed

lemma unread_world_userpass_Get:
  "k \<le> n \<Longrightarrow> unread_world (userpass_Get n userpass) read_After (0, []) k = (k, replicate k 10)"
  by (induction k) (simp_all add: userpass_Get_def read_After_def replicate_append_same)

lemma read_fails_userpass_Get:
  "k < n \<Longrightarrow> read_fails (userpass_Get n userpass) read_After (0, []) k"
  by (simp add: read_fails_def unread_world_userpass_Get userpass_Get_def)

text \<open>
  C9. Let read \<open>k + 1\<close> (\<open>k < 10\<close>) be the first that succeeds, with a node of value \<open>v\<close>.
  If \<open>v\<close> has no colon, \<open>LoadAdminCredsFromEtcd\<close> returns the error "Invalid user/pass: v"
  at once (the world is the one that read left: no sleep, no further read) and the record
  is unchanged. Otherwise it returns nil, with \<open>AdminUsername\<close> the text before the first
  colon and \<open>AdminPassword\<close> the text between the first colon and the second (or the end):
  for \<open>v = user:pass:rest\<close> the password is \<open>pass\<close>, and \<open>rest\<close> is dropped.
\<close>

theorem LoadAdminCredsFromEtcd_userpass:
  fixes etcdClient_Get :: "'w etcd_Get"
  assumes "k < 10" and "\<forall>j<k. read_fails etcdClient_Get time_After w j"
    and "etcdClient_Get KEY_USER_PASS False False (unread_world etcdClient_Get time_After w k)
           = (Inr response, w1)"
    and "Node response = Some node"
  shows "(CHR '':'' \<notin> set (Val node) \<longrightarrow>
            LoadAdminCredsFromEtcd etcdClient_Get time_After c w
              = (Returns (Some (Errorf (''Invalid user/pass: '' @ Val node)), c), w1))
    \<and> (CHR '':'' \<in> set (Val node) \<longrightarrow>
            LoadAdminCredsFromEtcd etcdClient_Get time_After c w
              = (Returns (None,
                   c\<lparr>AdminUsername := takeWhile (\<lambda>x. x \<noteq> CHR '':'') (Val node),
                     AdminPassword := takeWhile (\<lambda>x. x \<noteq> CHR '':'')
                                        (tl (dropWhile (\<lambda>x. x \<noteq> CHR '':'') (Val node)))\<rparr>), w1))
    \<and> (\<forall>user pass rest. Val node = user @ '':'' @ pass @ '':'' @ rest
            \<and> CHR '':'' \<notin> set user \<and> CHR '':'' \<notin> set pass \<longrightarrow>
            LoadAdminCredsFromEtcd etcdClient_Get time_After c w
              = (Returns (None, c\<lparr>AdminUsername := user, AdminPassword := pass\<rparr>), w1))"
proof (intro conjI allI impI)
  assume "CHR '':'' \<notin> set (Val node)"
  with LoadAdminCredsFromEtcd_read [OF assms]
  show "LoadAdminCredsFromEtcd etcdClient_Get time_After c w
              = (Returns (Some (Errorf (''Invalid user/pass: '' @ Val node)), c), w1)"
    by simp
next
  assume "CHR '':'' \<in> set (Val node)"
  with LoadAdminCredsFromEtcd_read [OF assms]
  show "LoadAdminCredsFromEtcd etcdClient_Get time_After c w
              = (Returns (None,
                   c\<lparr>AdminUsername := takeWhile (\<lambda>x. x \<noteq> CHR '':'') (Val node),
                     AdminPassword := takeWhile (\<lambda>x. x \<noteq> CHR '':'')
                                        (tl (dropWhile (\<lambda>x. x \<noteq> CHR '':'') (Val node)))\<rparr>), w1)"
    by simp
next
  fix user pass rest
  assume h: "Val node = user @ '':'' @ pass @ '':'' @ rest
            \<and> CHR '':'' \<notin> set user \<and> CHR '':'' \<notin> set pass"
  then have colon: "CHR '':'' \<in> set (Val node)" by simp
  from h have u: "takeWhile (\<lambda>x. x \<noteq> CHR '':'') (Val node) = user"
    by (simp add: takeWhile_until)
  from h have "dropWhile (\<lambda>x. x \<noteq> CHR '':'') (Val node) = CHR '':'' # pass @ CHR '':'' # rest"
    by (simp add: dropWhile_until)
  with h have p: "takeWhile (\<lambda>x. x \<noteq> CHR '':'') (tl (dropWhile (\<lambda>x. x \<noteq> CHR '':'') (Val node))) = pass"
    by (simp add: takeWhile_until)
  from LoadAdminCredsFromEtcd_read [OF assms] colon u p
  show "LoadAdminCredsFromEtcd etcdClient_Get time_After c w
              = (Returns (None, c\<lparr>AdminUsername := user, AdminPassword := pass\<rparr>), w1)"
    by simp
qed

theorem LoadAdminCredsFromEtcd_userpass_witness:
  "LoadAdminCredsFromEtcd (userpass_Get 2 ''admin:s3cret:extra'') read_After node1 (0, [])
     = (Returns (None, node1\<lparr>AdminUsername := ''admin'', AdminPassword := ''s3cret''\<rparr>),
        (3, [10, 10]))
   \<and> LoadAdminCredsFromEtcd (userpass_Get 0 ''adminpassword'') read_After node1 (0, [])
     = (Returns (Some (Errorf ''Invalid user/pass: adminpassword''), node1), (1, []))"
proof -
  let ?w = "(0, []) :: read_log"
  have a: "LoadAdminCredsFromEtcd (userpass_Get 2 ''admin:s3cret:extra'') read_After node1 ?w
     = (Returns (None, node1\<lparr>AdminUsername := ''admin'', AdminPassword := ''s3cret''\<rparr>),
        (3, [10, 10]))"
  proof -
    let ?get = "userpass_Get 2 ''admin:s3cret:extra''"
    have k: "(2 :: nat) < 10" by simp
    have fails: "\<forall>j<2. read_fails ?get read_After ?w j"
      by (simp add: read_fails_userpass_Get)
    have "replicate 2 (10 :: int) = [10, 10]" by code_simp
    with unread_world_userpass_Get [of 2 2 "''admin:s3cret:extra''"]
    have world: "unread_world ?get read_After ?w 2 = (2, [10, 10])" by simp
    have third: "?get KEY_USER_PASS False False (unread_world ?get read_After ?w 2)
        = (Inr \<lparr>Node = Some (MkNode KEY_USER_PASS ''admin:s3cret:extra'' [])\<rparr>, (3, [10, 10]))"
      unfolding world by (simp add: userpass_Get_def)
    have node: "Node \<lparr>Node = Some (MkNode KEY_USER_PASS ''admin:s3cret:extra'' [])\<rparr>
        = Some (MkNode KEY_USER_PASS ''admin:s3cret:extra'' [])"
      by simp
    have shape: "Val (MkNode KEY_USER_PASS ''admin:s3cret:extra'' [])
          = ''admin'' @ '':'' @ ''s3cret'' @ '':'' @ ''extra''
        \<and> CHR '':'' \<notin> set ''admin'' \<and> CHR '':'' \<notin> set ''s3cret''"
      by simp
    note facts = LoadAdminCredsFromEtcd_userpass [where etcdClient_Get = ?get
        and time_After = read_After and w = ?w and k = 2 and c = node1, OF k fails third node]
    from facts have "\<forall>user pass rest.
        Val (MkNode KEY_USER_PASS ''admin:s3cret:extra'' []) = user @ '':'' @ pass @ '':'' @ rest
          \<and> CHR '':'' \<notin> set user \<and> CHR '':'' \<notin> set pass \<longrightarrow>
        LoadAdminCredsFromEtcd ?get read_After node1 ?w
          = (Returns (None, node1\<lparr>AdminUsername := user, AdminPassword := pass\<rparr>), (3, [10, 10]))"
      by (elim conjE)
    then have "Val (MkNode KEY_USER_PASS ''admin:s3cret:extra'' [])
            = ''admin'' @ '':'' @ ''s3cret'' @ '':'' @ ''extra''
          \<and> CHR '':'' \<notin> set ''admin'' \<and> CHR '':'' \<notin> set ''s3cret'' \<longrightarrow>
        LoadAdminCredsFromEtcd ?get read_After node1 ?w
          = (Returns (None, node1\<lparr>AdminUsername := ''admin'', AdminPassword := ''s3cret''\<rparr>),
             (3, [10, 10]))"
      by (elim allE)
    with shape show ?thesis by (elim impE)
  qed
  have b: "LoadAdminCredsFromEtcd (userpass_Get 0 ''adminpassword'') read_After node1 ?w
     = (Returns (Some (Errorf ''Invalid user/pass: adminpassword''), node1), (1, []))"
  proof -
    let ?get = "userpass_Get 0 ''adminpassword''"
    have k: "(0 :: nat) < 10" by simp
    have fails: "\<forall>j<0. read_fails ?get read_After ?w j" by simp
    have first: "?get KEY_USER_PASS False False (unread_world ?get read_After ?w 0)
        = (Inr \<lparr>Node = Some (MkNode KEY_USER_PASS ''adminpassword'' [])\<rparr>, (1, []))"
      by (simp add: userpass_Get_def)
    have node: "Node \<lparr>Node = Some (MkNode KEY_USER_PASS ''adminpassword'' [])\<rparr>
        = Some (MkNode KEY_USER_PASS ''adminpassword'' [])"
      by simp
    have shape: "CHR '':'' \<notin> set (Val (MkNode KEY_USER_PASS ''adminpassword'' []))"
      by simp
    note facts = LoadAdminCredsFromEtcd_userpass [where etcdClient_Get = ?get
        and time_After = read_After and w = ?w and k = 0 and c = node1, OF k fails first node]
    from facts have "CHR '':'' \<notin> set (Val (MkNode KEY_USER_PASS ''adminpassword'' [])) \<longrightarrow>
        LoadAdminCredsFromEtcd ?get read_After node1 ?w
          = (Returns (Some (Errorf (''Invalid user/pass: ''
               @ Val (MkNode KEY_USER_PASS ''adminpassword'' []))), node1), (1, []))"
      by (elim conjE)
    with shape show ?thesis by simp
  qed
  from a b show ?thesis by blast
qed

end
